theory Spec2Isabelle
  imports Complex_Main "HOL-Library.Multiset" "HOL-Library.Word"
begin

section \<open>Concentration metrics of the restaking analysis scripts\<close>

text \<open>
  The two statistics \<open>calculate_hhi\<close> and \<open>calculate_gini\<close> are defined twice, with the
  same bodies, in \<open>mod1_operator_concentration_analysis.py\<close> and in
  \<open>mod1.5_avs_analysis.py\<close>. The specification calls them \<open>compute_hhi\<close> and
  \<open>compute_gini\<close>.

  A stake value is a finite float64, taken here as the real number it denotes, and a pandas
  Series or numpy array of them is a \<open>real list\<close>. The operations on them are the exact
  ones: the rounding of a float64 result, its overflow to infinity, and infinite or
  not-a-number entries of the input are outside this model. The properties proved below are
  therefore those that do not turn on rounding: which branch is taken, what is filtered and
  sorted, and values and bounds that float64 arithmetic keeps. The one not-a-number that
  the code itself writes, the \<open>np.nan\<close> that \<open>calculate_gini\<close> returns, is the constructor \<open>NaN\<close> of
  the result type.
\<close>

datatype pyfloat = NaN | Num real

subsection \<open>calculate_hhi\<close>

text \<open>
  \<^verbatim>\<open>
  def calculate_hhi(shares):
      if shares.sum() == 0:
          return 0
      percentages = (shares / shares.sum()) * 100
      return (percentages**2).sum()
  \<close>
\<close>

definition calculate_hhi :: "real list \<Rightarrow> real" where
  "calculate_hhi shares =
     (if sum_list shares = 0 then 0
      else let percentages = map (\<lambda>v. v / sum_list shares * 100) shares
           in sum_list (map (\<lambda>p. p ^ 2) percentages))"


subsection \<open>calculate_gini\<close>

text \<open>
  \<^verbatim>\<open>
  def calculate_gini(arr):
      arr = np.asarray(arr, dtype=np.float64)
      arr = arr[arr >= 0]
      if arr.size == 0 or np.sum(arr) == 0:
          return np.nan
      sorted_arr = np.sort(arr)
      n = len(sorted_arr)
      index = np.arange(1, n + 1)
      numerator = np.sum((2 * index - n - 1) * sorted_arr)
      denominator = n * np.sum(sorted_arr)
      if denominator == 0:
          return np.nan
      return numerator / denominator
  \<close>
  The index array holds signed integers, so the weight \<open>2 * i - n - 1\<close> is computed
  in \<open>int\<close> and may be negative.
\<close>

definition gini_numerator :: "real list \<Rightarrow> real" where
  "gini_numerator sorted_arr =
     (let n = length sorted_arr;
          index = [1 .. int n]
      in sum_list (map2 (\<lambda>i x. real_of_int (2 * i - int n - 1) * x) index sorted_arr))"

definition gini_denominator :: "real list \<Rightarrow> real" where
  "gini_denominator sorted_arr =
     (let n = length sorted_arr in real n * sum_list sorted_arr)"

definition calculate_gini :: "real list \<Rightarrow> pyfloat" where
  "calculate_gini arr0 =
     (let arr = filter (\<lambda>v. v \<ge> 0) arr0
      in if length arr = 0 \<or> sum_list arr = 0 then NaN
         else let sorted_arr = sort arr
              in if gini_denominator sorted_arr = 0 then NaN
                 else Num (gini_numerator sorted_arr / gini_denominator sorted_arr))"

subsection \<open>Auxiliary notions\<close>



section \<open>Lemmas about the Herfindahl-Hirschman index\<close>
















section \<open>Lemmas about calculate_gini\<close>

lemma gini_denominator_sort:
  "gini_denominator (sort xs) = real (length xs) * sum_list xs"
proof -
  have "sum_list (sort xs) = sum_list xs"
    using sum_mset_sum_list [of "sort xs"] sum_mset_sum_list [of xs] by simp
  then show ?thesis by (simp add: gini_denominator_def)
qed

lemma calculate_gini_undefined:
  assumes "filter (\<lambda>v. v \<ge> 0) arr0 = [] \<or> sum_list (filter (\<lambda>v. v \<ge> 0) arr0) = 0"
  shows "calculate_gini arr0 = NaN"
  using assms by (auto simp add: calculate_gini_def Let_def)

lemma sort_mset_cong: "mset xs = mset ys \<Longrightarrow> sort xs = sort (ys :: real list)"
  using properties_for_sort [of "sort ys" xs] by simp

section \<open>Properties of calculate_hhi\<close>

text \<open>
  C5. Whenever the values sum to exactly zero, as they do for the empty collection and
  for a collection of zeros, \<open>calculate_hhi\<close> returns 0; the function is total, so no
  error is signalled.
\<close>

theorem hhi_zero_sum:
  "sum_list shares = 0 \<Longrightarrow> calculate_hhi shares = 0"
  by (simp add: calculate_hhi_def)

theorem hhi_zero_sum_witness:
  "sum_list [0, 0, 0 :: real] = 0 \<and> calculate_hhi [0, 0, 0] = 0
   \<and> sum_list ([] :: real list) = 0 \<and> calculate_hhi [] = 0"
  using hhi_zero_sum [of "[0, 0, 0]"] hhi_zero_sum [of "[]"] by simp




text \<open>
  C7. \<open>calculate_hhi\<close> is to leave out negative values, as \<open>calculate_gini\<close> does on
  the same column, so that its result on a collection is its result on that collection
  without its negative entries. It does not: on \<open>[-1, 2]\<close> the total is 1, the
  percentages are -100 and 200, and the result is 50000, whereas on \<open>[2]\<close> it is 10000.
\<close>

theorem hhi_negative_entry_kept:
  "calculate_hhi [-1, 2] = 50000 \<and> calculate_hhi [2] = 10000"
  by (simp add: calculate_hhi_def)

section \<open>Properties of calculate_gini\<close>

text \<open>
  C6. \<open>calculate_gini\<close> discards the values strictly below zero: its result is the one
  it gives on the collection with those values removed. When what remains is empty or sums
  to zero, the result is the not-a-number sentinel, which is not the number 0; the function
  is total, so nothing is raised.
\<close>

theorem gini_discards_negatives_nan:
  "calculate_gini arr0 = calculate_gini (filter (\<lambda>v. \<not> v < 0) arr0)
   \<and> (filter (\<lambda>v. \<not> v < 0) arr0 = [] \<or> sum_list (filter (\<lambda>v. \<not> v < 0) arr0) = 0
        \<longrightarrow> calculate_gini arr0 = NaN \<and> calculate_gini arr0 \<noteq> Num 0)"
proof -
  have k: "filter (\<lambda>v. \<not> v < 0) arr0 = filter (\<lambda>v. v \<ge> 0) arr0"
    by (simp add: not_less)
  have "calculate_gini (filter (\<lambda>v. v \<ge> 0) arr0) = calculate_gini arr0"
    by (simp add: calculate_gini_def)
  moreover have "calculate_gini arr0 = NaN"
    if "filter (\<lambda>v. v \<ge> 0) arr0 = [] \<or> sum_list (filter (\<lambda>v. v \<ge> 0) arr0) = 0"
    using that by (rule calculate_gini_undefined)
  ultimately show ?thesis unfolding k by simp
qed

theorem gini_discards_negatives_nan_witness:
  "filter (\<lambda>v. \<not> v < 0) [-1, -2 :: real] = [] \<and> calculate_gini [-1, -2] = NaN
   \<and> sum_list (filter (\<lambda>v. \<not> v < 0) [0, -5, 0 :: real]) = 0 \<and> calculate_gini [0, -5, 0] = NaN
   \<and> calculate_gini [-1, 1] = calculate_gini [1]"
proof -
  have a: "filter (\<lambda>v. \<not> v < 0) [-1, -2 :: real] = []" by simp
  have b: "sum_list (filter (\<lambda>v. \<not> v < 0) [0, -5, 0 :: real]) = 0" by simp
  have c: "filter (\<lambda>v. \<not> v < 0) [-1, 1 :: real] = [1]" by simp
  have "calculate_gini [-1, -2] = NaN"
    using gini_discards_negatives_nan [of "[-1, -2]"] a by blast
  moreover have "calculate_gini [0, -5, 0] = NaN"
    using gini_discards_negatives_nan [of "[0, -5, 0]"] b by blast
  moreover have "calculate_gini [-1, 1] = calculate_gini [1]"
    using gini_discards_negatives_nan [of "[-1, 1]"] unfolding c by blast
  ultimately show ?thesis using a b by blast
qed

text \<open>
  Discarding is not clamping: with the negative value removed a single value is left and
  the coefficient is 0, whereas the same input with the negative value set to zero gives
  one half.
\<close>

lemma gini_discards_example:
  "calculate_gini [-1, 1] = Num 0 \<and> calculate_gini [0, 1] = Num (1 / 2)"
  by (simp add: calculate_gini_def gini_numerator_def gini_denominator_def upto_rec1)

text \<open>
  C10. Once the first check of \<open>calculate_gini\<close> is passed (the array of kept values is
  non-empty and its sum is not zero), the denominator \<open>n * sum\<close> is not zero, so the
  second \<open>np.nan\<close> return is never taken and the quotient is returned.
\<close>

theorem gini_zero_denominator_unreachable:
  assumes "length (filter (\<lambda>v. v \<ge> 0) arr0) \<noteq> 0"
    and "sum_list (filter (\<lambda>v. v \<ge> 0) arr0) \<noteq> 0"
  shows "gini_denominator (sort (filter (\<lambda>v. v \<ge> 0) arr0)) \<noteq> 0
         \<and> calculate_gini arr0
             = Num (gini_numerator (sort (filter (\<lambda>v. v \<ge> 0) arr0))
                    / gini_denominator (sort (filter (\<lambda>v. v \<ge> 0) arr0)))"
proof -
  have "gini_denominator (sort (filter (\<lambda>v. v \<ge> 0) arr0)) \<noteq> 0"
    using assms by (simp add: gini_denominator_sort)
  then show ?thesis using assms by (simp add: calculate_gini_def Let_def)
qed

theorem gini_zero_denominator_unreachable_witness:
  "length (filter (\<lambda>v. v \<ge> 0) [500, 300, 100, 100 :: real]) \<noteq> 0
   \<and> sum_list (filter (\<lambda>v. v \<ge> 0) [500, 300, 100, 100 :: real]) \<noteq> 0
   \<and> gini_denominator (sort (filter (\<lambda>v. v \<ge> 0) [500, 300, 100, 100 :: real])) \<noteq> 0
   \<and> calculate_gini [500, 300, 100, 100]
       = Num (gini_numerator (sort (filter (\<lambda>v. v \<ge> 0) [500, 300, 100, 100]))
              / gini_denominator (sort (filter (\<lambda>v. v \<ge> 0) [500, 300, 100, 100])))"
proof -
  have a: "length (filter (\<lambda>v. v \<ge> 0) [500, 300, 100, 100 :: real]) \<noteq> 0" by simp
  have b: "sum_list (filter (\<lambda>v. v \<ge> 0) [500, 300, 100, 100 :: real]) \<noteq> 0" by simp
  show ?thesis using a b gini_zero_denominator_unreachable [OF a b] by blast
qed

text \<open>
  C9. \<open>calculate_gini\<close> gives the same result on every rearrangement of its input.
\<close>

theorem gini_permutation_invariant:
  assumes "mset xs = mset ys"
  shows "calculate_gini xs = calculate_gini ys"
proof -
  define fx where "fx = filter (\<lambda>v. v \<ge> 0) xs"
  define fy where "fy = filter (\<lambda>v. v \<ge> 0) ys"
  have m: "mset fx = mset fy"
    using assms mset_filter [of "\<lambda>v. v \<ge> 0" xs] mset_filter [of "\<lambda>v. v \<ge> 0" ys]
    by (simp add: fx_def fy_def)
  have l: "length fx = length fy" using m by (rule mset_eq_length)
  have s: "sum_list fx = sum_list fy"
    using m sum_mset_sum_list [of fx] sum_mset_sum_list [of fy] by simp
  have srt: "sort fx = sort fy" using m by (rule sort_mset_cong)
  show ?thesis
    unfolding calculate_gini_def Let_def fx_def [symmetric] fy_def [symmetric] l s srt ..
qed

theorem gini_permutation_invariant_witness:
  "mset [500, 300, 100, 100 :: real] = mset [100, 500, 100, 300]
   \<and> calculate_gini [500, 300, 100, 100] = calculate_gini [100, 500, 100, 300]"
proof -
  have a: "mset [500, 300, 100, 100 :: real] = mset [100, 500, 100, 300]" by simp
  show ?thesis using a gini_permutation_invariant [OF a] by blast
qed

end
